theory Spec2Isabelle
  imports Main
begin

section \<open>Values, objects and tokens\<close>

text \<open>
  The module is TypeScript. A string is a \<open>string\<close>, a template literal is
  concatenation, and an optional parameter or an optional field that is \<open>undefined\<close>
  is \<open>None\<close>. An options object is a finite map from its keys to values: a key that
  is absent reads as \<open>undefined\<close>. The fields the module reads are typed by the
  interface \<open>ClickHouseModuleOptions\<close> (\<open>name\<close> a string, \<open>retryAttempts\<close> and
  \<open>retryDelay\<close> numbers, \<open>verboseRetryLog\<close> a boolean); every other key belongs to the
  vendor's \<open>ClickHouseClientConfigOptions\<close> and is passed through untouched.
\<close>

datatype js_value = JStr string | JNum int | JBool bool

type_synonym js_object = "string \<rightharpoonup> js_value"

definition get_string :: "js_object \<Rightarrow> string \<Rightarrow> string option" where
  "get_string obj k = (case obj k of Some (JStr s) \<Rightarrow> Some s | _ \<Rightarrow> None)"

definition get_number :: "js_object \<Rightarrow> string \<Rightarrow> int option" where
  "get_number obj k = (case obj k of Some (JNum n) \<Rightarrow> Some n | _ \<Rightarrow> None)"

definition get_boolean :: "js_object \<Rightarrow> string \<Rightarrow> bool option" where
  "get_boolean obj k = (case obj k of Some (JBool b) \<Rightarrow> Some b | _ \<Rightarrow> None)"

text \<open>
  Object rest destructuring, \<open>const { k1, ..., kn, ...rest } = obj\<close>: \<open>rest\<close> holds
  the keys of \<open>obj\<close> that are not among \<open>k1, ..., kn\<close>.
\<close>

definition rest_without :: "string list \<Rightarrow> js_object \<Rightarrow> js_object" where
  "rest_without ks obj = (\<lambda>k. if k \<in> set ks then None else obj k)"

text \<open>
  Modelled from the spec: the file \<open>clickhouse.constants.ts\<close> is not among the sources.
  The value of \<open>DEFAULT_CONNECTION_NAME\<close> is the one that the doc comment of
  \<open>getConnectionToken\<close>, the doc comment of \<open>ClickHouseModuleOptions.name\<close> and the
  README's option table give for the default connection name.
\<close>

definition DEFAULT_CONNECTION_NAME :: string where
  "DEFAULT_CONNECTION_NAME = ''DefaultClickHouseConnection''"

text \<open>
  Injection tokens. \<open>CLICKHOUSE_CONNECTION_NAME\<close> and \<open>CLICKHOUSE_MODULE_OPTIONS\<close> are
  the two other constants of the absent constants file; nothing below depends on their
  values, so they are kept as tokens of their own. A connection is registered under the
  string that \<open>getConnectionToken\<close> returns, a class under the class itself.
\<close>

datatype token =
    CLICKHOUSE_CONNECTION_NAME
  | CLICKHOUSE_MODULE_OPTIONS
  | StringToken string
  | TypeToken string

section \<open>Connection naming (common/clickhouse.utils.ts, common/clickhouse.decorators.ts)\<close>

definition getConnectionToken :: "string option \<Rightarrow> string" where
  "getConnectionToken name =
     (if name = None \<or> name = Some DEFAULT_CONNECTION_NAME
      then DEFAULT_CONNECTION_NAME
      else the name @ ''ClickHouseConnection'')"

text \<open>
  \<open>Inject(token)\<close> is the framework's parameter decorator: it records the token the
  container resolves for the decorated parameter.
\<close>

datatype injection = Inject (inject_token: string)

definition InjectClickHouse :: "string option \<Rightarrow> injection" where
  "InjectClickHouse name = Inject (getConnectionToken name)"

section \<open>Effects: the calls the module makes\<close>

text \<open>
  A JavaScript \<open>Error\<close> carries a message. \<open>new Error(m)\<close> with \<open>m\<close> undefined has
  the empty message.
\<close>

datatype js_error = Error (message: string)

definition new_Error :: "string option \<Rightarrow> js_error" where
  "new_Error m = Error (case m of None \<Rightarrow> [] | Some s \<Rightarrow> s)"

text \<open>
  The handle that the vendor's \<open>createClient\<close> returns for a configuration object.
\<close>

datatype client = Client (config: js_object)

text \<open>
  What one call of \<open>client.ping()\<close> can do: resolve to \<open>{success: true}\<close>, resolve to
  \<open>{success: false, error}\<close> (the argument is \<open>error?.message\<close>), or reject with a
  fault of its own. The database is the environment: a script gives the outcome of the
  probe with index \<open>0, 1, 2, ...\<close>
\<close>

datatype ping_outcome = PingSuccess | PingFailure "string option" | PingThrows js_error

type_synonym probe_script = "nat \<Rightarrow> ping_outcome"

text \<open>
  The calls into the vendor's client, the logger and the timer, in the order in which
  they are made. \<open>LoggerError line err\<close> is \<open>logger.error(line, err.stack)\<close>;
  \<open>Timer d\<close> is the wait on \<open>timer(d)\<close>; \<open>LoggerLog line\<close> is \<open>logger.log(line)\<close>.
\<close>

datatype event =
    CreateClient js_object
  | Ping
  | LoggerError string js_error
  | Timer int
  | LoggerLog string
  | Close client

type_synonym 'a run = "event list \<times> (js_error + 'a)"

text \<open>Readings of a trace.\<close>

definition constructions :: "event list \<Rightarrow> js_object list" where
  "constructions tr = concat (map (\<lambda>e. case e of CreateClient c \<Rightarrow> [c] | _ \<Rightarrow> []) tr)"

definition probe_count :: "event list \<Rightarrow> nat" where
  "probe_count tr = length (filter (\<lambda>e. e = Ping) tr)"

definition error_lines :: "event list \<Rightarrow> string list" where
  "error_lines tr = concat (map (\<lambda>e. case e of LoggerError l _ \<Rightarrow> [l] | _ \<Rightarrow> []) tr)"

definition waits :: "event list \<Rightarrow> int list" where
  "waits tr = concat (map (\<lambda>e. case e of Timer d \<Rightarrow> [d] | _ \<Rightarrow> []) tr)"

definition close_calls :: "event list \<Rightarrow> client list" where
  "close_calls tr = concat (map (\<lambda>e. case e of Close c \<Rightarrow> [c] | _ \<Rightarrow> []) tr)"

section \<open>The retry operator (common/clickhouse.utils.ts)\<close>

text \<open>Decimal digits of a count, as a template literal prints a number.\<close>

definition digit_char :: "nat \<Rightarrow> char" where
  "digit_char d = ''0123456789'' ! d"

function string_of_nat :: "nat \<Rightarrow> string" where
  "string_of_nat n =
     (if n < 10 then [digit_char n] else string_of_nat (n div 10) @ [digit_char (n mod 10)])"
  by pat_completeness auto
termination
  by (relation "measure (\<lambda>n. n)") auto

declare string_of_nat.simps [simp del]

text \<open>
  \<open>retry({count, delay})\<close> is the operator of the library rxjs (version 7), which is
  not part of the repository. It is modelled as the library documents and implements it.
  Its \<open>count\<close> is documented as "the maximum number of times to retry": it bounds the
  resubscriptions that follow an error, not the subscriptions, so that a source that
  always fails is subscribed to \<open>count + 1\<close> times. With \<open>count <= 0\<close> the operator is
  the identity. Otherwise it keeps a counter \<open>soFar\<close> from \<open>0\<close>, and on an error of the
  source it tests \<open>soFar++ < count\<close>: if so it calls \<open>delay(err, soFar)\<close> with the
  incremented counter, waits for the notifier that \<open>delay\<close> returns and subscribes to
  the source again; if not it passes the error on. A value of the source is passed on
  with nothing else done (\<open>resetOnSuccess\<close> is off). The source here is a deferred
  computation with one outcome per subscription: \<open>source i\<close> is what the subscription
  with index \<open>i\<close> does and returns. \<open>delay\<close> returns the calls it makes, the wait on
  its notifier last.
\<close>

function subscribeForRetry ::
  "int \<Rightarrow> (js_error \<Rightarrow> nat \<Rightarrow> event list) \<Rightarrow> (nat \<Rightarrow> 'a run) \<Rightarrow> nat \<Rightarrow> 'a run" where
  "subscribeForRetry count delay source soFar =
     (case source soFar of
        (evs, Inr v) \<Rightarrow> (evs, Inr v)
      | (evs, Inl err) \<Rightarrow>
          if int soFar < count
          then (case subscribeForRetry count delay source (Suc soFar) of
                  (rest, r) \<Rightarrow> (evs @ delay err (Suc soFar) @ rest, r))
          else (evs, Inl err))"
  by pat_completeness auto
termination
  by (relation "measure (\<lambda>(count, delay, source, soFar). nat (count - int soFar))") auto

declare subscribeForRetry.simps [simp del]

definition retry ::
  "int \<Rightarrow> (js_error \<Rightarrow> nat \<Rightarrow> event list) \<Rightarrow> (nat \<Rightarrow> 'a run) \<Rightarrow> 'a run" where
  "retry count delay source =
     (if count \<le> 0 then source 0 else subscribeForRetry count delay source 0)"

text \<open>
  The options of \<open>handleRetry\<close>. The two numbers are integers: a number of attempts and
  a delay in milliseconds.
\<close>

record HandleRetryOptions =
  connectionName :: "string option"
  retryAttempts :: "int option"
  retryDelay :: "int option"
  verboseRetryLog :: "bool option"

text \<open>The destructuring defaults of \<open>handleRetry\<close>.\<close>

definition effective_connectionName :: "HandleRetryOptions \<Rightarrow> string" where
  "effective_connectionName options =
     (case connectionName options of None \<Rightarrow> DEFAULT_CONNECTION_NAME | Some n \<Rightarrow> n)"

definition effective_retryAttempts :: "HandleRetryOptions \<Rightarrow> int" where
  "effective_retryAttempts options =
     (case retryAttempts options of None \<Rightarrow> 10 | Some n \<Rightarrow> n)"

definition effective_retryDelay :: "HandleRetryOptions \<Rightarrow> int" where
  "effective_retryDelay options =
     (case retryDelay options of None \<Rightarrow> 3000 | Some d \<Rightarrow> d)"

definition effective_verboseRetryLog :: "HandleRetryOptions \<Rightarrow> bool" where
  "effective_verboseRetryLog options =
     (case verboseRetryLog options of None \<Rightarrow> False | Some b \<Rightarrow> b)"

text \<open>The line that the \<open>delay\<close> callback of \<open>handleRetry\<close> logs.\<close>

definition retry_line :: "string \<Rightarrow> bool \<Rightarrow> js_error \<Rightarrow> nat \<Rightarrow> string" where
  "retry_line cname verbose error errorCount =
     (let connectionInfo =
            (if cname = DEFAULT_CONNECTION_NAME then [] else '' ('' @ cname @ '')'');
          verboseMessage =
            (if verbose then '' Message: '' @ message error @ ''.'' else [])
      in ''Unable to connect to ClickHouse'' @ connectionInfo @ ''.'' @ verboseMessage @
         '' Retrying ('' @ string_of_nat errorCount @ '')...'')"

definition handleRetry :: "HandleRetryOptions \<Rightarrow> (nat \<Rightarrow> 'a run) \<Rightarrow> 'a run" where
  "handleRetry options source =
     retry (effective_retryAttempts options)
       (\<lambda>error errorCount.
          [LoggerError
             (retry_line (effective_connectionName options)
                (effective_verboseRetryLog options) error errorCount)
             error,
           Timer (effective_retryDelay options)])
       source"

section \<open>The connection factory (clickhouse-core.module.ts)\<close>

text \<open>
  The deferred block of \<open>createClickHouseClient\<close>: one probe of the handle, which
  throws when the probe reports a failure and returns the handle otherwise.
\<close>

definition ping_once :: "client \<Rightarrow> ping_outcome \<Rightarrow> client run" where
  "ping_once c outcome =
     (case outcome of
        PingSuccess \<Rightarrow> ([Ping], Inr c)
      | PingFailure m \<Rightarrow> ([Ping], Inl (new_Error m))
      | PingThrows e \<Rightarrow> ([Ping], Inl e))"

text \<open>
  The handle is constructed once, before the deferred block, and \<open>createClient\<close> is
  taken to return a handle for every configuration object. \<open>lastValueFrom\<close> resolves to
  the handle that the piped observable emits, or rejects with its error.
\<close>

definition createClickHouseClient ::
  "js_object \<Rightarrow> HandleRetryOptions \<Rightarrow> probe_script \<Rightarrow> client run" where
  "createClickHouseClient clientOptions retryOptions probe =
     (let c = Client clientOptions;
          (evs, r) = handleRetry retryOptions (\<lambda>i. ping_once c (probe i))
      in (CreateClient clientOptions # evs, r))"

text \<open>
  Readings of a probe outcome and of a script: the fault with which the deferred block
  ends (none when the probe succeeds), and the number of probes, counted from index
  \<open>s\<close> and below index \<open>n\<close>, that fail before the first one that succeeds.
\<close>

fun thrown :: "ping_outcome \<Rightarrow> js_error option" where
  "thrown PingSuccess = None"
| "thrown (PingFailure m) = Some (new_Error m)"
| "thrown (PingThrows e) = Some e"

definition retried :: "probe_script \<Rightarrow> nat \<Rightarrow> nat \<Rightarrow> nat" where
  "retried probe s n = length (takeWhile (\<lambda>i. probe i \<noteq> PingSuccess) [s..<n])"

text \<open>
  One round of the retry loop after the failed probe with index \<open>i\<close>: the probe, the
  one \<open>logger.error\<close> call of the \<open>delay\<close> callback with the incremented error count,
  and the wait on \<open>timer(retryDelay)\<close>.
\<close>

definition retry_round :: "HandleRetryOptions \<Rightarrow> probe_script \<Rightarrow> nat \<Rightarrow> event list" where
  "retry_round options probe i =
     [Ping,
      LoggerError
        (retry_line (effective_connectionName options)
           (effective_verboseRetryLog options) (the (thrown (probe i))) (Suc i))
        (the (thrown (probe i))),
      Timer (effective_retryDelay options)]"

section \<open>Registration (clickhouse-core.module.ts)\<close>

text \<open>
  A provider is what the module hands to the framework's container: a value under a
  token, a factory under a token with the tokens of its arguments, or a class under a
  token. The factories of this module are the connection factory of \<open>forRoot\<close> (no
  argument), the connection factory of \<open>forRootAsync\<close> (its argument is the resolved
  configuration), the user's \<open>useFactory\<close>, and the delegate
  \<open>(factory) => factory.createClickHouseOptions()\<close>. A token or a class that is
  \<open>undefined\<close> is \<open>None\<close>.
\<close>

datatype factory =
    ConnectionFactory "probe_script \<Rightarrow> client run"
  | ConnectionFactoryOfOptions "js_object \<Rightarrow> probe_script \<Rightarrow> client run"
  | OptionsFactory "js_value list \<Rightarrow> js_object"
  | OptionsFactoryDelegate

datatype provider =
    ValueProvider token string
  | FactoryProvider token factory "token option list"
  | ClassProvider "token option" "token option"

fun provided_token :: "provider \<Rightarrow> token option" where
  "provided_token (ValueProvider t _) = Some t"
| "provided_token (FactoryProvider t _ _) = Some t"
| "provided_token (ClassProvider t _) = t"

record DynamicModule =
  module_class :: string
  imported :: "string list"
  providers :: "provider list"
  exported :: "provider list"

definition forRoot :: "js_object \<Rightarrow> DynamicModule" where
  "forRoot options =
     (let name = get_string options ''name'';
          retryAttempts = get_number options ''retryAttempts'';
          retryDelay = get_number options ''retryDelay'';
          verboseRetryLog = get_boolean options ''verboseRetryLog'';
          clientOptions =
            rest_without [''name'', ''retryAttempts'', ''retryDelay'', ''verboseRetryLog'']
              options;
          connectionName = getConnectionToken name;
          connectionNameProvider = ValueProvider CLICKHOUSE_CONNECTION_NAME connectionName;
          connectionProvider =
            FactoryProvider (StringToken connectionName)
              (ConnectionFactory
                 (createClickHouseClient clientOptions
                    \<lparr>connectionName = Some connectionName,
                     retryAttempts = retryAttempts,
                     retryDelay = retryDelay,
                     verboseRetryLog = verboseRetryLog\<rparr>))
              []
      in \<lparr>module_class = ''ClickHouseCoreModule'',
          imported = [],
          providers = [connectionProvider, connectionNameProvider],
          exported = [connectionProvider]\<rparr>)"

record ClickHouseModuleAsyncOptions =
  async_name :: "string option"
  async_imports :: "string list option"
  useExisting :: "string option"
  useClass :: "string option"
  useFactory :: "(js_value list \<Rightarrow> js_object) option"
  inject :: "token list option"

definition createAsyncOptionsProvider :: "ClickHouseModuleAsyncOptions \<Rightarrow> provider" where
  "createAsyncOptionsProvider options =
     (case useFactory options of
        Some f \<Rightarrow>
          FactoryProvider CLICKHOUSE_MODULE_OPTIONS (OptionsFactory f)
            (map Some (case inject options of None \<Rightarrow> [] | Some ts \<Rightarrow> ts))
      | None \<Rightarrow>
          FactoryProvider CLICKHOUSE_MODULE_OPTIONS OptionsFactoryDelegate
            [map_option TypeToken
               (case useExisting options of Some c \<Rightarrow> Some c | None \<Rightarrow> useClass options)])"

definition createAsyncProviders :: "ClickHouseModuleAsyncOptions \<Rightarrow> provider list" where
  "createAsyncProviders options =
     (if useExisting options \<noteq> None \<or> useFactory options \<noteq> None
      then [createAsyncOptionsProvider options]
      else [createAsyncOptionsProvider options,
            ClassProvider (map_option TypeToken (useClass options))
              (map_option TypeToken (useClass options))])"

text \<open>
  The connection factory of \<open>forRootAsync\<close>: the closure over \<open>connectionName\<close> that
  receives the resolved configuration.
\<close>

definition forRootAsync_useFactory :: "string \<Rightarrow> js_object \<Rightarrow> probe_script \<Rightarrow> client run" where
  "forRootAsync_useFactory cname moduleOptions =
     (let retryAttempts = get_number moduleOptions ''retryAttempts'';
          retryDelay = get_number moduleOptions ''retryDelay'';
          verboseRetryLog = get_boolean moduleOptions ''verboseRetryLog'';
          clientOptions =
            rest_without [''retryAttempts'', ''retryDelay'', ''verboseRetryLog''] moduleOptions
      in createClickHouseClient clientOptions
           \<lparr>connectionName = Some cname,
            retryAttempts = retryAttempts,
            retryDelay = retryDelay,
            verboseRetryLog = verboseRetryLog\<rparr>)"

definition forRootAsync :: "ClickHouseModuleAsyncOptions \<Rightarrow> DynamicModule" where
  "forRootAsync options =
     (let connectionName = getConnectionToken (async_name options);
          connectionNameProvider = ValueProvider CLICKHOUSE_CONNECTION_NAME connectionName;
          connectionProvider =
            FactoryProvider (StringToken connectionName)
              (ConnectionFactoryOfOptions (forRootAsync_useFactory connectionName))
              [Some CLICKHOUSE_MODULE_OPTIONS]
      in \<lparr>module_class = ''ClickHouseCoreModule'',
          imported = (case async_imports options of None \<Rightarrow> [] | Some ms \<Rightarrow> ms),
          providers =
            createAsyncProviders options @ [connectionProvider, connectionNameProvider],
          exported = [connectionProvider]\<rparr>)"

section \<open>Shutdown (clickhouse-core.module.ts)\<close>

text \<open>
  An instance of \<open>ClickHouseCoreModule\<close>: the injected connection name and the
  framework's \<open>moduleRef\<close>, read as the lookup \<open>moduleRef.get(token, {strict: false})\<close>
  whose miss is the falsy value that the guard \<open>if (client)\<close> tests. What
  \<open>client.close()\<close> does is the environment's: \<open>None\<close> when it resolves, the fault
  when it rejects.
\<close>

record ClickHouseCoreModule =
  module_connectionName :: string
  moduleRef :: "string \<rightharpoonup> client"

definition onApplicationShutdown ::
  "ClickHouseCoreModule \<Rightarrow> (client \<Rightarrow> js_error option) \<Rightarrow> unit run" where
  "onApplicationShutdown this closing =
     (case moduleRef this (module_connectionName this) of
        None \<Rightarrow> ([], Inr ())
      | Some c \<Rightarrow>
          (let evs = [LoggerLog (''Closing ClickHouse connection ('' @
                        module_connectionName this @ '')''),
                      Close c]
           in case closing c of None \<Rightarrow> (evs, Inr ()) | Some e \<Rightarrow> (evs, Inl e)))"

text \<open>
  The container calls a connection factory with the values of its \<open>inject\<close> tokens:
  none for \<open>forRoot\<close>, the resolved configuration for \<open>forRootAsync\<close>.
\<close>

fun run_factory :: "provider \<Rightarrow> js_object \<Rightarrow> probe_script \<Rightarrow> client run option" where
  "run_factory (FactoryProvider _ (ConnectionFactory f) _) _ probe = Some (f probe)"
| "run_factory (FactoryProvider _ (ConnectionFactoryOfOptions f) _) moduleOptions probe =
     Some (f moduleOptions probe)"
| "run_factory _ _ _ = None"

section \<open>The host container\<close>

text \<open>
  Modelled from the spec: the container of the host framework, which wires the providers
  of a registration, is not part of the repository. The spec has a provider's factory
  run with its declared dependencies resolved, and has a registration with no source for
  its configuration fail at wiring time, not at connection time. The model is the least
  that says so, and follows the framework's injector: a factory provider is loaded after
  the providers of its \<open>inject\<close> tokens, in the order of the list; an \<open>inject\<close> entry
  that is \<open>undefined\<close> is a wiring fault that names the provider and the position of
  the entry (the framework's \<open>UndefinedDependencyException\<close>); a token that no
  provider of the registration provides is left to the rest of the application; a
  factory is called only when all its dependencies are loaded. The fuel bounds the depth
  of the dependency chain, and running out of it is the fault of a circular dependency.
\<close>

datatype wiring_fault =
    UndefinedDependency token nat
  | CircularDependency

fun first_fault :: "wiring_fault option list \<Rightarrow> wiring_fault option" where
  "first_fault [] = None"
| "first_fault (None # fs) = first_fault fs"
| "first_fault (Some f # fs) = Some f"

fun load_provider :: "nat \<Rightarrow> provider list \<Rightarrow> provider \<Rightarrow> wiring_fault option" where
  "load_provider 0 ps p = Some CircularDependency"
| "load_provider (Suc fuel) ps (FactoryProvider t f deps) =
     first_fault
       (map (\<lambda>(i, d).
               case d of
                 None \<Rightarrow> Some (UndefinedDependency t i)
               | Some dep \<Rightarrow>
                   (case find (\<lambda>q. provided_token q = Some dep) ps of
                      None \<Rightarrow> None
                    | Some q \<Rightarrow> load_provider fuel ps q))
          (enumerate 0 deps))"
| "load_provider (Suc fuel) ps (ValueProvider t v) = None"
| "load_provider (Suc fuel) ps (ClassProvider t c) = None"

text \<open>
  Wiring a registration up to its exported connection provider: the fault of loading it,
  or else the run of its factory on the resolved configuration.
\<close>

definition wire_connection ::
  "DynamicModule \<Rightarrow> js_object \<Rightarrow> probe_script \<Rightarrow> (wiring_fault + client run option) list" where
  "wire_connection m moduleOptions probe =
     map (\<lambda>p. case load_provider (Suc (length (providers m))) (providers m) p of
                 Some fault \<Rightarrow> Inl fault
               | None \<Rightarrow> Inr (run_factory p moduleOptions probe))
       (exported m)"

section \<open>The run of the connection factory\<close>

lemma ping_once_thrown:
  "ping_once c outcome = ([Ping], case thrown outcome of None \<Rightarrow> Inr c | Some e \<Rightarrow> Inl e)"
  by (cases outcome) (simp_all add: ping_once_def)

lemma thrown_None: "thrown outcome = None \<longleftrightarrow> outcome = PingSuccess"
  by (cases outcome) simp_all

lemma subscribeForRetry_trace:
  "subscribeForRetry count delay (\<lambda>i. ping_once c (probe i)) s =
     (concat (map (\<lambda>i. Ping # delay (the (thrown (probe i))) (Suc i))
                [s..<s + retried probe s (nat count)]) @ [Ping],
      snd (ping_once c (probe (s + retried probe s (nat count)))))"
proof (induction count delay "\<lambda>i. ping_once c (probe i)" s rule: subscribeForRetry.induct)
  case (1 count delay soFar)
  show ?case
  proof (cases "thrown (probe soFar)")
    case None
    then have "probe soFar = PingSuccess" by (simp add: thrown_None)
    then have "retried probe soFar (nat count) = 0"
      by (cases "soFar < nat count") (simp_all add: retried_def upt_conv_Cons)
    moreover have "ping_once c (probe soFar) = ([Ping], Inr c)"
      using None by (simp add: ping_once_thrown)
    ultimately show ?thesis
      by (simp add: subscribeForRetry.simps [of count delay _ soFar])
  next
    case (Some err)
    then have nok: "probe soFar \<noteq> PingSuccess" by (auto simp: thrown_None [symmetric])
    have po: "ping_once c (probe soFar) = ([Ping], Inl err)"
      using Some by (simp add: ping_once_thrown)
    show ?thesis
    proof (cases "int soFar < count")
      case True
      then have lt: "soFar < nat count" by simp
      have k: "retried probe soFar (nat count) = Suc (retried probe (Suc soFar) (nat count))"
        using lt nok by (simp add: retried_def upt_conv_Cons)
      have ih: "subscribeForRetry count delay (\<lambda>i. ping_once c (probe i)) (Suc soFar) =
         (concat (map (\<lambda>i. Ping # delay (the (thrown (probe i))) (Suc i))
                [Suc soFar..<Suc soFar + retried probe (Suc soFar) (nat count)]) @ [Ping],
          snd (ping_once c (probe (Suc soFar + retried probe (Suc soFar) (nat count)))))"
        using "1" [OF po [symmetric] refl True] .
      have u: "[soFar..<Suc (soFar + retried probe (Suc soFar) (nat count))] =
                 soFar # [Suc soFar..<Suc (soFar + retried probe (Suc soFar) (nat count))]"
        by (simp add: upt_conv_Cons)
      show ?thesis
        using True Some
        by (simp add: subscribeForRetry.simps [of count delay _ soFar] po ih k u del: upt_Suc)
    next
      case False
      then have "retried probe soFar (nat count) = 0"
        by (simp add: retried_def)
      then show ?thesis
        using False by (simp add: subscribeForRetry.simps [of count delay _ soFar] po)
    qed
  qed
qed

lemma createClickHouseClient_run:
  "createClickHouseClient clientOptions retryOptions probe =
     (CreateClient clientOptions #
        concat (map (retry_round retryOptions probe)
                  [0..<retried probe 0 (nat (effective_retryAttempts retryOptions))]) @ [Ping],
      snd (ping_once (Client clientOptions)
             (probe (retried probe 0 (nat (effective_retryAttempts retryOptions))))))"
proof (cases "effective_retryAttempts retryOptions \<le> 0")
  case True
  then have "retried probe 0 (nat (effective_retryAttempts retryOptions)) = 0"
    by (simp add: retried_def)
  then show ?thesis
    using True
    by (simp add: createClickHouseClient_def handleRetry_def retry_def ping_once_thrown)
next
  case False
  have "(\<lambda>i. Ping # [LoggerError
             (retry_line (effective_connectionName retryOptions)
                (effective_verboseRetryLog retryOptions) (the (thrown (probe i))) (Suc i))
             (the (thrown (probe i))),
           Timer (effective_retryDelay retryOptions)]) = retry_round retryOptions probe"
    by (simp add: retry_round_def fun_eq_iff)
  then show ?thesis
    using False
    by (simp add: createClickHouseClient_def handleRetry_def retry_def subscribeForRetry_trace)
qed

lemma retried_all_fail:
  assumes "\<And>i. i < n \<Longrightarrow> probe i \<noteq> PingSuccess"
  shows "retried probe 0 n = n"
proof -
  have "takeWhile (\<lambda>i. probe i \<noteq> PingSuccess) [0..<n] = [0..<n]"
    using assms by simp
  then show ?thesis
    unfolding retried_def by (metis length_upt diff_zero)
qed

lemma retried_first_success:
  assumes "\<And>i. i < k \<Longrightarrow> probe i \<noteq> PingSuccess" and "probe k = PingSuccess" and "k < n"
  shows "retried probe 0 n = k"
proof -
  have "[0..<n] = [0..<k] @ k # [Suc k..<n]"
    using \<open>k < n\<close> by (metis less_imp_le_nat upt_add_eq_append upt_conv_Cons le0 le_add_diff_inverse)
  moreover have "takeWhile (\<lambda>i. probe i \<noteq> PingSuccess) ([0..<k] @ k # [Suc k..<n]) =
                 [0..<k] @ takeWhile (\<lambda>i. probe i \<noteq> PingSuccess) (k # [Suc k..<n])"
    by (rule takeWhile_append2) (use assms in auto)
  ultimately show ?thesis
    using assms(2) by (simp add: retried_def del: upt_Suc)
qed

lemma probe_count_append: "probe_count (xs @ ys) = probe_count xs + probe_count ys"
  by (simp add: probe_count_def)

lemma error_lines_append: "error_lines (xs @ ys) = error_lines xs @ error_lines ys"
  by (simp add: error_lines_def)

lemma constructions_append: "constructions (xs @ ys) = constructions xs @ constructions ys"
  by (simp add: constructions_def)

lemma probe_count_rounds:
  "probe_count (concat (map (retry_round options probe) xs)) = length xs"
  by (induction xs) (simp_all add: probe_count_append, simp_all add: probe_count_def retry_round_def)

lemma error_lines_rounds:
  "length (error_lines (concat (map (retry_round options probe) xs))) = length xs"
  by (induction xs) (simp_all add: error_lines_append, simp_all add: error_lines_def retry_round_def)

lemma constructions_rounds:
  "constructions (concat (map (retry_round options probe) xs)) = []"
  by (induction xs) (simp_all add: constructions_append, simp_all add: constructions_def retry_round_def)

lemma probe_count_run:
  "probe_count (fst (createClickHouseClient clientOptions retryOptions probe)) =
     retried probe 0 (nat (effective_retryAttempts retryOptions)) + 1"
proof -
  have "probe_count [CreateClient clientOptions] = 0" and "probe_count [Ping] = 1"
    by (simp_all add: probe_count_def)
  then show ?thesis
    using probe_count_append [of "[CreateClient clientOptions]"]
    by (simp add: createClickHouseClient_run probe_count_append probe_count_rounds)
qed

lemma error_lines_run:
  "length (error_lines (fst (createClickHouseClient clientOptions retryOptions probe))) =
     retried probe 0 (nat (effective_retryAttempts retryOptions))"
proof -
  have "error_lines [CreateClient clientOptions] = []" and "error_lines [Ping] = []"
    by (simp_all add: error_lines_def)
  then show ?thesis
    using error_lines_append [of "[CreateClient clientOptions]"]
    by (simp add: createClickHouseClient_run error_lines_append error_lines_rounds)
qed

lemma constructions_run:
  "constructions (fst (createClickHouseClient clientOptions retryOptions probe)) =
     [clientOptions]"
proof -
  have "constructions [CreateClient clientOptions] = [clientOptions]"
    and "constructions [Ping] = []"
    by (simp_all add: constructions_def)
  then show ?thesis
    using constructions_append [of "[CreateClient clientOptions]"]
    by (simp add: createClickHouseClient_run constructions_append constructions_rounds)
qed

lemma waits_append: "waits (xs @ ys) = waits xs @ waits ys"
  by (simp add: waits_def)

lemma waits_rounds:
  "waits (concat (map (retry_round options probe) xs)) =
     replicate (length xs) (effective_retryDelay options)"
  by (induction xs) (simp_all add: waits_append, simp_all add: waits_def retry_round_def)

lemma error_lines_rounds_eq:
  "error_lines (concat (map (retry_round options probe) xs)) =
     map (\<lambda>i. retry_line (effective_connectionName options) (effective_verboseRetryLog options)
                (the (thrown (probe i))) (Suc i)) xs"
  by (induction xs)
    (simp_all add: error_lines_append, simp_all add: error_lines_def retry_round_def)

lemma waits_run:
  "waits (fst (createClickHouseClient clientOptions retryOptions probe)) =
     replicate (retried probe 0 (nat (effective_retryAttempts retryOptions)))
       (effective_retryDelay retryOptions)"
proof -
  have "waits [CreateClient clientOptions] = []" and "waits [Ping] = []"
    by (simp_all add: waits_def)
  then show ?thesis
    using waits_append [of "[CreateClient clientOptions]"]
    by (simp add: createClickHouseClient_run waits_append waits_rounds)
qed

lemma error_lines_run_eq:
  "error_lines (fst (createClickHouseClient clientOptions retryOptions probe)) =
     map (\<lambda>i. retry_line (effective_connectionName retryOptions)
                (effective_verboseRetryLog retryOptions) (the (thrown (probe i))) (Suc i))
       [0..<retried probe 0 (nat (effective_retryAttempts retryOptions))]"
proof -
  have "error_lines [CreateClient clientOptions] = []" and "error_lines [Ping] = []"
    by (simp_all add: error_lines_def)
  then show ?thesis
    using error_lines_append [of "[CreateClient clientOptions]"]
    by (simp add: createClickHouseClient_run error_lines_append error_lines_rounds_eq)
qed

section \<open>Claims on the connection factory\<close>

text \<open>
  Claim C1, as amended. When every probe fails, the factory makes exactly
  \<open>retryAttempts + 1\<close> probe attempts (the first attempt and \<open>retryAttempts\<close> retries; a
  single attempt when \<open>retryAttempts\<close> is \<open>0\<close> or negative), logs exactly \<open>retryAttempts\<close>
  retry lines, and then rejects with the fault of the last failed attempt (for a failure
  result, an \<open>Error\<close> with the message of the probe's error); it never returns a handle.
  \<open>retryAttempts\<close> is the effective value, \<open>10\<close> when omitted.
\<close>

theorem retry_exhaustion:
  assumes "\<forall>i. probe i \<noteq> PingSuccess"
  shows "probe_count (fst (createClickHouseClient clientOptions retryOptions probe)) =
           nat (effective_retryAttempts retryOptions) + 1 \<and>
         length (error_lines (fst (createClickHouseClient clientOptions retryOptions probe))) =
           nat (effective_retryAttempts retryOptions) \<and>
         snd (createClickHouseClient clientOptions retryOptions probe) =
           Inl (the (thrown (probe (nat (effective_retryAttempts retryOptions))))) \<and>
         (\<forall>handle. snd (createClickHouseClient clientOptions retryOptions probe) \<noteq> Inr handle)"
proof -
  let ?n = "nat (effective_retryAttempts retryOptions)"
  have k: "retried probe 0 ?n = ?n"
    using assms by (simp add: retried_all_fail)
  obtain err where err: "thrown (probe ?n) = Some err"
    using assms by (cases "thrown (probe ?n)") (auto simp: thrown_None)
  have res: "snd (createClickHouseClient clientOptions retryOptions probe) = Inl err"
    by (simp add: createClickHouseClient_run k ping_once_thrown err)
  show ?thesis
    using res err by (simp add: probe_count_run error_lines_run k)
qed

text \<open>
  The theorem at \<open>{retryAttempts: 2, retryDelay: 0}\<close> with a probe that always reports
  \<open>connect ECONNREFUSED\<close>: three probes, then that message.
\<close>

theorem retry_exhaustion_witness:
  "probe_count (fst (createClickHouseClient Map.empty
       \<lparr>connectionName = None, retryAttempts = Some 2, retryDelay = Some 0,
        verboseRetryLog = None\<rparr> (\<lambda>i. PingFailure (Some ''connect ECONNREFUSED'')))) = 3 \<and>
   snd (createClickHouseClient Map.empty
       \<lparr>connectionName = None, retryAttempts = Some 2, retryDelay = Some 0,
        verboseRetryLog = None\<rparr> (\<lambda>i. PingFailure (Some ''connect ECONNREFUSED''))) =
     Inl (Error ''connect ECONNREFUSED'')"
  using retry_exhaustion [of "\<lambda>i. PingFailure (Some ''connect ECONNREFUSED'')" Map.empty
      "\<lparr>connectionName = None, retryAttempts = Some 2, retryDelay = Some 0,
        verboseRetryLog = None\<rparr>"]
  by (simp add: effective_retryAttempts_def new_Error_def)

text \<open>
  Claim C1 as stated fails: with \<open>retryAttempts: 1\<close> and a probe that always fails the
  factory probes twice, not once.
\<close>

theorem attempts_equal_retryAttempts_counterexample:
  "effective_retryAttempts
     \<lparr>connectionName = None, retryAttempts = Some 1, retryDelay = Some 0,
      verboseRetryLog = None\<rparr> = 1 \<and>
   probe_count (fst (createClickHouseClient Map.empty
     \<lparr>connectionName = None, retryAttempts = Some 1, retryDelay = Some 0,
      verboseRetryLog = None\<rparr> (\<lambda>i. PingFailure None))) = 2"
proof -
  have "retried (\<lambda>i. PingFailure None) 0 1 = 1"
    by (rule retried_all_fail) simp
  then show ?thesis
    by (simp add: probe_count_run effective_retryAttempts_def)
qed

text \<open>
  Claim C2, as amended. When the probe fails exactly \<open>k\<close> times and then succeeds, with
  \<open>k < retryAttempts\<close>, the factory returns the verified handle after exactly one
  construction of the handle (one \<open>createClient\<close> call, made before the retried block)
  and exactly \<open>k + 1\<close> probe attempts, and it logs exactly \<open>k\<close> retry lines.
\<close>

theorem fail_then_succeed:
  assumes "\<forall>i<k. probe i \<noteq> PingSuccess"
    and "probe k = PingSuccess"
    and "int k < effective_retryAttempts retryOptions"
  shows "snd (createClickHouseClient clientOptions retryOptions probe) =
           Inr (Client clientOptions) \<and>
         constructions (fst (createClickHouseClient clientOptions retryOptions probe)) =
           [clientOptions] \<and>
         probe_count (fst (createClickHouseClient clientOptions retryOptions probe)) = k + 1 \<and>
         length (error_lines (fst (createClickHouseClient clientOptions retryOptions probe))) = k"
proof -
  have k: "retried probe 0 (nat (effective_retryAttempts retryOptions)) = k"
    using assms by (intro retried_first_success) auto
  show ?thesis
    using assms(2)
    by (simp add: constructions_run probe_count_run error_lines_run k,
        simp add: createClickHouseClient_run k ping_once_thrown)
qed

text \<open>
  The theorem at the spec's example: \<open>{retryAttempts: 3, retryDelay: 0}\<close> with a probe
  that fails twice and then succeeds.
\<close>

theorem fail_then_succeed_witness:
  "snd (createClickHouseClient Map.empty
       \<lparr>connectionName = None, retryAttempts = Some 3, retryDelay = Some 0,
        verboseRetryLog = None\<rparr> (\<lambda>i. if i < 2 then PingFailure None else PingSuccess)) =
     Inr (Client Map.empty) \<and>
   probe_count (fst (createClickHouseClient Map.empty
       \<lparr>connectionName = None, retryAttempts = Some 3, retryDelay = Some 0,
        verboseRetryLog = None\<rparr> (\<lambda>i. if i < 2 then PingFailure None else PingSuccess))) = 3 \<and>
   length (error_lines (fst (createClickHouseClient Map.empty
       \<lparr>connectionName = None, retryAttempts = Some 3, retryDelay = Some 0,
        verboseRetryLog = None\<rparr> (\<lambda>i. if i < 2 then PingFailure None else PingSuccess)))) = 2"
  using fail_then_succeed [of 2 "\<lambda>i. if i < 2 then PingFailure None else PingSuccess"
      "\<lparr>connectionName = None, retryAttempts = Some 3, retryDelay = Some 0,
        verboseRetryLog = None\<rparr>" Map.empty]
  by (simp add: effective_retryAttempts_def)

text \<open>
  Claim C2 as stated fails: in the same run, with \<open>k = 2\<close>, there are \<open>k + 1\<close> probes
  but one construction, not \<open>k + 1\<close>.
\<close>

theorem construction_per_attempt_counterexample:
  "probe_count (fst (createClickHouseClient Map.empty
       \<lparr>connectionName = None, retryAttempts = Some 3, retryDelay = Some 0,
        verboseRetryLog = None\<rparr> (\<lambda>i. if i < 2 then PingFailure None else PingSuccess))) = 2 + 1 \<and>
   length (constructions (fst (createClickHouseClient Map.empty
       \<lparr>connectionName = None, retryAttempts = Some 3, retryDelay = Some 0,
        verboseRetryLog = None\<rparr> (\<lambda>i. if i < 2 then PingFailure None else PingSuccess)))) = 1"
proof -
  have "retried (\<lambda>i. if i < 2 then PingFailure None else PingSuccess) 0 3 = 2"
    by (rule retried_first_success) simp_all
  then show ?thesis
    by (simp add: probe_count_run constructions_run effective_retryAttempts_def)
qed

section \<open>Claims on the retry log\<close>




section \<open>Claims on the defaults\<close>

lemma createClickHouseClient_effective:
  assumes "effective_connectionName a = effective_connectionName b"
    and "effective_retryAttempts a = effective_retryAttempts b"
    and "effective_retryDelay a = effective_retryDelay b"
    and "effective_verboseRetryLog a = effective_verboseRetryLog b"
  shows "createClickHouseClient clientOptions a = createClickHouseClient clientOptions b"
  using assms by (simp add: fun_eq_iff createClickHouseClient_def handleRetry_def)

lemma rest_without_upd:
  "k \<in> set ks \<Longrightarrow> rest_without ks (obj(k := v)) = rest_without ks obj"
  by (simp add: rest_without_def fun_eq_iff)

text \<open>
  Claim C3. A retry option that is omitted has its default as the value that the retry
  logic uses. With \<open>retryAttempts\<close> omitted, a probe that always fails is attempted
  \<open>11\<close> times, the first attempt and \<open>10\<close> retries, with \<open>10\<close> logged lines. With
  \<open>retryDelay\<close> omitted, every wait of the run is a wait of \<open>3000\<close> ms. With
  \<open>verboseRetryLog\<close> omitted, every logged line is the line without the message
  segment. The same is seen through the registrations: the connection factories of
  \<open>forRoot\<close> and of \<open>forRootAsync\<close>, for a configuration object without the keys, probe
  \<open>11\<close> times and wait \<open>3000\<close> ms ten times when the probe always fails. Moreover the
  effective values of omitted fields are \<open>10\<close>, \<open>3000\<close> and \<open>False\<close>, and the retry
  operator, the registration of \<open>forRoot\<close> and the connection factory of
  \<open>forRootAsync\<close> are the same for a configuration without a key and for the same
  configuration with the default under the key.
\<close>

theorem omitted_retry_fields_default:
  "((\<forall>i. probe i \<noteq> PingSuccess) \<longrightarrow>
      probe_count (fst (createClickHouseClient clientOptions
        (retryOptions\<lparr>retryAttempts := None\<rparr>) probe)) = 11 \<and>
      length (error_lines (fst (createClickHouseClient clientOptions
        (retryOptions\<lparr>retryAttempts := None\<rparr>) probe))) = 10) \<and>
   waits (fst (createClickHouseClient clientOptions
        (retryOptions\<lparr>retryDelay := None\<rparr>) probe)) =
     replicate (retried probe 0 (nat (effective_retryAttempts retryOptions))) 3000 \<and>
   error_lines (fst (createClickHouseClient clientOptions
        (retryOptions\<lparr>verboseRetryLog := None\<rparr>) probe)) =
     map (\<lambda>i. ''Unable to connect to ClickHouse'' @
               (if effective_connectionName retryOptions = DEFAULT_CONNECTION_NAME then []
                else '' ('' @ effective_connectionName retryOptions @ '')'') @
               ''. Retrying ('' @ string_of_nat (Suc i) @ '')...'')
       [0..<retried probe 0 (nat (effective_retryAttempts retryOptions))] \<and>
   ((\<forall>i. probe i \<noteq> PingSuccess) \<longrightarrow>
      map (\<lambda>p. map_option (\<lambda>r. (probe_count (fst r), waits (fst r)))
                  (run_factory p moduleOptions probe))
        (exported (forRoot (options(''retryAttempts'' := None, ''retryDelay'' := None)))) =
        [Some (11, replicate 10 3000)] \<and>
      probe_count (fst (forRootAsync_useFactory cname
        (options(''retryAttempts'' := None, ''retryDelay'' := None)) probe)) = 11 \<and>
      waits (fst (forRootAsync_useFactory cname
        (options(''retryAttempts'' := None, ''retryDelay'' := None)) probe)) =
        replicate 10 3000) \<and>
   effective_retryAttempts (retryOptions\<lparr>retryAttempts := None\<rparr>) = 10 \<and>
   effective_retryDelay (retryOptions\<lparr>retryDelay := None\<rparr>) = 3000 \<and>
   effective_verboseRetryLog (retryOptions\<lparr>verboseRetryLog := None\<rparr>) = False \<and>
   handleRetry (retryOptions\<lparr>retryAttempts := None\<rparr>) source =
     handleRetry (retryOptions\<lparr>retryAttempts := Some 10\<rparr>) source \<and>
   handleRetry (retryOptions\<lparr>retryDelay := None\<rparr>) source =
     handleRetry (retryOptions\<lparr>retryDelay := Some 3000\<rparr>) source \<and>
   handleRetry (retryOptions\<lparr>verboseRetryLog := None\<rparr>) source =
     handleRetry (retryOptions\<lparr>verboseRetryLog := Some False\<rparr>) source \<and>
   forRoot (options(''retryAttempts'' := None)) =
     forRoot (options(''retryAttempts'' \<mapsto> JNum 10)) \<and>
   forRoot (options(''retryDelay'' := None)) =
     forRoot (options(''retryDelay'' \<mapsto> JNum 3000)) \<and>
   forRoot (options(''verboseRetryLog'' := None)) =
     forRoot (options(''verboseRetryLog'' \<mapsto> JBool False)) \<and>
   forRootAsync_useFactory cname (options(''retryAttempts'' := None)) =
     forRootAsync_useFactory cname (options(''retryAttempts'' \<mapsto> JNum 10)) \<and>
   forRootAsync_useFactory cname (options(''retryDelay'' := None)) =
     forRootAsync_useFactory cname (options(''retryDelay'' \<mapsto> JNum 3000)) \<and>
   forRootAsync_useFactory cname (options(''verboseRetryLog'' := None)) =
     forRootAsync_useFactory cname (options(''verboseRetryLog'' \<mapsto> JBool False))"
proof -
  have observed:
    "((\<forall>i. probe i \<noteq> PingSuccess) \<longrightarrow>
        probe_count (fst (createClickHouseClient clientOptions
          (retryOptions\<lparr>retryAttempts := None\<rparr>) probe)) = 11 \<and>
        length (error_lines (fst (createClickHouseClient clientOptions
          (retryOptions\<lparr>retryAttempts := None\<rparr>) probe))) = 10) \<and>
     waits (fst (createClickHouseClient clientOptions
          (retryOptions\<lparr>retryDelay := None\<rparr>) probe)) =
       replicate (retried probe 0 (nat (effective_retryAttempts retryOptions))) 3000 \<and>
     error_lines (fst (createClickHouseClient clientOptions
          (retryOptions\<lparr>verboseRetryLog := None\<rparr>) probe)) =
       map (\<lambda>i. ''Unable to connect to ClickHouse'' @
                 (if effective_connectionName retryOptions = DEFAULT_CONNECTION_NAME then []
                  else '' ('' @ effective_connectionName retryOptions @ '')'') @
                 ''. Retrying ('' @ string_of_nat (Suc i) @ '')...'')
         [0..<retried probe 0 (nat (effective_retryAttempts retryOptions))] \<and>
     ((\<forall>i. probe i \<noteq> PingSuccess) \<longrightarrow>
        map (\<lambda>p. map_option (\<lambda>r. (probe_count (fst r), waits (fst r)))
                    (run_factory p moduleOptions probe))
          (exported (forRoot (options(''retryAttempts'' := None, ''retryDelay'' := None)))) =
          [Some (11, replicate 10 3000)] \<and>
        probe_count (fst (forRootAsync_useFactory cname
          (options(''retryAttempts'' := None, ''retryDelay'' := None)) probe)) = 11 \<and>
        waits (fst (forRootAsync_useFactory cname
          (options(''retryAttempts'' := None, ''retryDelay'' := None)) probe)) =
          replicate 10 3000)"
  proof -
    have a: "effective_retryAttempts (retryOptions\<lparr>retryAttempts := None\<rparr>) = 10"
      by (simp add: effective_retryAttempts_def)
    have o1: "probe_count (fst (createClickHouseClient clientOptions
                (retryOptions\<lparr>retryAttempts := None\<rparr>) probe)) = 11 \<and>
              length (error_lines (fst (createClickHouseClient clientOptions
                (retryOptions\<lparr>retryAttempts := None\<rparr>) probe))) = 10"
      if "\<forall>i. probe i \<noteq> PingSuccess"
      using that by (simp add: probe_count_run error_lines_run a retried_all_fail)
    have o2: "waits (fst (createClickHouseClient clientOptions
                (retryOptions\<lparr>retryDelay := None\<rparr>) probe)) =
              replicate (retried probe 0 (nat (effective_retryAttempts retryOptions))) 3000"
      by (simp add: waits_run effective_retryAttempts_def effective_retryDelay_def)
    have o3: "error_lines (fst (createClickHouseClient clientOptions
                (retryOptions\<lparr>verboseRetryLog := None\<rparr>) probe)) =
       map (\<lambda>i. ''Unable to connect to ClickHouse'' @
                 (if effective_connectionName retryOptions = DEFAULT_CONNECTION_NAME then []
                  else '' ('' @ effective_connectionName retryOptions @ '')'') @
                 ''. Retrying ('' @ string_of_nat (Suc i) @ '')...'')
         [0..<retried probe 0 (nat (effective_retryAttempts retryOptions))]"
      by (simp add: error_lines_run_eq effective_retryAttempts_def effective_verboseRetryLog_def
          effective_connectionName_def retry_line_def)
    have o4: "map (\<lambda>p. map_option (\<lambda>r. (probe_count (fst r), waits (fst r)))
                    (run_factory p moduleOptions probe))
          (exported (forRoot (options(''retryAttempts'' := None, ''retryDelay'' := None)))) =
          [Some (11, replicate 10 3000)] \<and>
        probe_count (fst (forRootAsync_useFactory cname
          (options(''retryAttempts'' := None, ''retryDelay'' := None)) probe)) = 11 \<and>
        waits (fst (forRootAsync_useFactory cname
          (options(''retryAttempts'' := None, ''retryDelay'' := None)) probe)) =
          replicate 10 3000"
      if "\<forall>i. probe i \<noteq> PingSuccess"
      using that
      by (simp add: forRoot_def forRootAsync_useFactory_def Let_def get_number_def
          probe_count_run waits_run effective_retryAttempts_def effective_retryDelay_def
          retried_all_fail)
    show ?thesis
      using o1 o2 o3 o4 by blast
  qed
  have equal:
    "effective_retryAttempts (retryOptions\<lparr>retryAttempts := None\<rparr>) = 10 \<and>
     effective_retryDelay (retryOptions\<lparr>retryDelay := None\<rparr>) = 3000 \<and>
     effective_verboseRetryLog (retryOptions\<lparr>verboseRetryLog := None\<rparr>) = False \<and>
     handleRetry (retryOptions\<lparr>retryAttempts := None\<rparr>) source =
       handleRetry (retryOptions\<lparr>retryAttempts := Some 10\<rparr>) source \<and>
     handleRetry (retryOptions\<lparr>retryDelay := None\<rparr>) source =
       handleRetry (retryOptions\<lparr>retryDelay := Some 3000\<rparr>) source \<and>
     handleRetry (retryOptions\<lparr>verboseRetryLog := None\<rparr>) source =
       handleRetry (retryOptions\<lparr>verboseRetryLog := Some False\<rparr>) source \<and>
     forRoot (options(''retryAttempts'' := None)) =
       forRoot (options(''retryAttempts'' \<mapsto> JNum 10)) \<and>
     forRoot (options(''retryDelay'' := None)) =
       forRoot (options(''retryDelay'' \<mapsto> JNum 3000)) \<and>
     forRoot (options(''verboseRetryLog'' := None)) =
       forRoot (options(''verboseRetryLog'' \<mapsto> JBool False)) \<and>
     forRootAsync_useFactory cname (options(''retryAttempts'' := None)) =
       forRootAsync_useFactory cname (options(''retryAttempts'' \<mapsto> JNum 10)) \<and>
     forRootAsync_useFactory cname (options(''retryDelay'' := None)) =
       forRootAsync_useFactory cname (options(''retryDelay'' \<mapsto> JNum 3000)) \<and>
     forRootAsync_useFactory cname (options(''verboseRetryLog'' := None)) =
       forRootAsync_useFactory cname (options(''verboseRetryLog'' \<mapsto> JBool False))"
  proof -
    have eff: "effective_retryAttempts (retryOptions\<lparr>retryAttempts := None\<rparr>) = 10"
      "effective_retryDelay (retryOptions\<lparr>retryDelay := None\<rparr>) = 3000"
      "effective_verboseRetryLog (retryOptions\<lparr>verboseRetryLog := None\<rparr>) = False"
      by (simp_all add: effective_retryAttempts_def effective_retryDelay_def
          effective_verboseRetryLog_def)
    have hr: "handleRetry (retryOptions\<lparr>retryAttempts := None\<rparr>) source =
                handleRetry (retryOptions\<lparr>retryAttempts := Some 10\<rparr>) source"
      "handleRetry (retryOptions\<lparr>retryDelay := None\<rparr>) source =
         handleRetry (retryOptions\<lparr>retryDelay := Some 3000\<rparr>) source"
      "handleRetry (retryOptions\<lparr>verboseRetryLog := None\<rparr>) source =
         handleRetry (retryOptions\<lparr>verboseRetryLog := Some False\<rparr>) source"
      by (simp_all add: handleRetry_def effective_retryAttempts_def effective_retryDelay_def
          effective_verboseRetryLog_def effective_connectionName_def)
    have fr: "forRoot (options(''retryAttempts'' := None)) =
                forRoot (options(''retryAttempts'' \<mapsto> JNum 10))"
      "forRoot (options(''retryDelay'' := None)) =
         forRoot (options(''retryDelay'' \<mapsto> JNum 3000))"
      "forRoot (options(''verboseRetryLog'' := None)) =
         forRoot (options(''verboseRetryLog'' \<mapsto> JBool False))"
      by (simp_all add: forRoot_def Let_def rest_without_upd get_string_def get_number_def
          get_boolean_def,
          (rule createClickHouseClient_effective;
           simp add: effective_retryAttempts_def effective_retryDelay_def
             effective_verboseRetryLog_def effective_connectionName_def)+)
    have fa: "forRootAsync_useFactory cname (options(''retryAttempts'' := None)) =
                forRootAsync_useFactory cname (options(''retryAttempts'' \<mapsto> JNum 10))"
      "forRootAsync_useFactory cname (options(''retryDelay'' := None)) =
         forRootAsync_useFactory cname (options(''retryDelay'' \<mapsto> JNum 3000))"
      "forRootAsync_useFactory cname (options(''verboseRetryLog'' := None)) =
         forRootAsync_useFactory cname (options(''verboseRetryLog'' \<mapsto> JBool False))"
      by (simp_all add: forRootAsync_useFactory_def Let_def rest_without_upd get_number_def
          get_boolean_def,
          (rule createClickHouseClient_effective;
           simp add: effective_retryAttempts_def effective_retryDelay_def
             effective_verboseRetryLog_def effective_connectionName_def)+)
    show ?thesis
      using eff hr fr fa by simp
  qed
  from observed equal show ?thesis
    by simp
qed

text \<open>
  The theorem at the options that omit every field, with a probe that always fails, and
  at \<open>{retryAttempts: 1}\<close> for the line.
\<close>

theorem omitted_retry_fields_default_witness:
  "probe_count (fst (createClickHouseClient Map.empty
       \<lparr>connectionName = None, retryAttempts = None, retryDelay = None,
        verboseRetryLog = None\<rparr> (\<lambda>i. PingFailure None))) = 11 \<and>
   length (error_lines (fst (createClickHouseClient Map.empty
       \<lparr>connectionName = None, retryAttempts = None, retryDelay = None,
        verboseRetryLog = None\<rparr> (\<lambda>i. PingFailure None)))) = 10 \<and>
   waits (fst (createClickHouseClient Map.empty
       \<lparr>connectionName = None, retryAttempts = None, retryDelay = None,
        verboseRetryLog = None\<rparr> (\<lambda>i. PingFailure None))) = replicate 10 3000 \<and>
   error_lines (fst (createClickHouseClient Map.empty
       \<lparr>connectionName = None, retryAttempts = Some 1, retryDelay = None,
        verboseRetryLog = None\<rparr> (\<lambda>i. PingFailure (Some ''connect ECONNREFUSED'')))) =
     [''Unable to connect to ClickHouse. Retrying (1)...'']"
proof -
  have k: "retried (\<lambda>i. PingFailure None) 0 10 = 10"
    and k1: "retried (\<lambda>i. PingFailure (Some ''connect ECONNREFUSED'')) 0 (Suc 0) = Suc 0"
    by (rule retried_all_fail, simp)+
  show ?thesis
    using omitted_retry_fields_default
      [where probe = "\<lambda>i. PingFailure None" and clientOptions = Map.empty
         and retryOptions = "\<lparr>connectionName = None, retryAttempts = None,
               retryDelay = None, verboseRetryLog = None\<rparr>"
         and moduleOptions = Map.empty and options = Map.empty and cname = "[]"
         and source = "\<lambda>i. ([], Inr ())"]
      omitted_retry_fields_default
      [where probe = "\<lambda>i. PingFailure (Some ''connect ECONNREFUSED'')"
         and clientOptions = Map.empty
         and retryOptions = "\<lparr>connectionName = None, retryAttempts = Some 1,
               retryDelay = None, verboseRetryLog = None\<rparr>"
         and moduleOptions = Map.empty and options = Map.empty and cname = "[]"
         and source = "\<lambda>i. ([], Inr ())"]
    by (simp add: k k1 effective_retryAttempts_def effective_connectionName_def
        string_of_nat.simps [of "Suc 0"] digit_char_def)
qed

section \<open>Claims on connection naming\<close>

text \<open>
  Claim C4, as amended. No name and the default sentinel name resolve to the same default
  identifier. Every other name \<open>n\<close> resolves to \<open>n\<close> followed by
  \<open>ClickHouseConnection\<close>; two distinct names other than the sentinel resolve to
  distinct identifiers; and the identifier of a name other than the sentinel differs
  from the default identifier for every name but \<open>Default\<close>.
\<close>

theorem connection_tokens:
  "getConnectionToken None = DEFAULT_CONNECTION_NAME \<and>
   getConnectionToken (Some DEFAULT_CONNECTION_NAME) = DEFAULT_CONNECTION_NAME \<and>
   (n \<noteq> DEFAULT_CONNECTION_NAME \<longrightarrow>
      getConnectionToken (Some n) = n @ ''ClickHouseConnection'') \<and>
   (n \<noteq> DEFAULT_CONNECTION_NAME \<and> m \<noteq> DEFAULT_CONNECTION_NAME \<and> n \<noteq> m \<longrightarrow>
      getConnectionToken (Some n) \<noteq> getConnectionToken (Some m)) \<and>
   (n \<noteq> DEFAULT_CONNECTION_NAME \<and> n \<noteq> ''Default'' \<longrightarrow>
      getConnectionToken (Some n) \<noteq> DEFAULT_CONNECTION_NAME)"
  by (auto simp: getConnectionToken_def DEFAULT_CONNECTION_NAME_def)

text \<open>
  The theorem at the names \<open>logs\<close> and \<open>analytics\<close>.
\<close>

theorem connection_tokens_witness:
  "getConnectionToken None = getConnectionToken (Some DEFAULT_CONNECTION_NAME) \<and>
   getConnectionToken (Some ''logs'') = ''logsClickHouseConnection'' \<and>
   getConnectionToken (Some ''logs'') \<noteq> getConnectionToken (Some ''analytics'') \<and>
   getConnectionToken (Some ''logs'') \<noteq> getConnectionToken None"
  using connection_tokens [of "''logs''" "''analytics''"]
    connection_tokens [of "''analytics''" "''logs''"]
  by (simp add: DEFAULT_CONNECTION_NAME_def)

text \<open>
  Claim C4 as stated fails: the name \<open>Default\<close> is not the sentinel, and it resolves to
  the default identifier.
\<close>

theorem default_token_collision_counterexample:
  "''Default'' \<noteq> DEFAULT_CONNECTION_NAME \<and>
   getConnectionToken (Some ''Default'') = getConnectionToken None"
  by (simp add: getConnectionToken_def DEFAULT_CONNECTION_NAME_def)

text \<open>
  Claim C10. The marker \<open>InjectClickHouse(name)\<close> asks for the token
  \<open>getConnectionToken(name)\<close>, for every name and for no name, and that is the token
  under which \<open>forRoot\<close> and \<open>forRootAsync\<close> export the handle of a registration with
  this name.
\<close>

theorem marker_token:
  "inject_token (InjectClickHouse name) = getConnectionToken name \<and>
   map provided_token (exported (forRoot options)) =
     [Some (StringToken (inject_token (InjectClickHouse (get_string options ''name''))))] \<and>
   map provided_token (exported (forRootAsync asyncOptions)) =
     [Some (StringToken (inject_token (InjectClickHouse (async_name asyncOptions))))]"
  by (simp add: InjectClickHouse_def forRoot_def forRootAsync_def Let_def)

text \<open>
  The theorem at the name \<open>logs\<close> and at no name.
\<close>

theorem marker_token_witness:
  "inject_token (InjectClickHouse (Some ''logs'')) = ''logsClickHouseConnection'' \<and>
   inject_token (InjectClickHouse None) = ''DefaultClickHouseConnection'' \<and>
   map provided_token (exported (forRoot [''name'' \<mapsto> JStr ''logs''])) =
     [Some (StringToken ''logsClickHouseConnection'')]"
  using marker_token [of "Some ''logs''" "[''name'' \<mapsto> JStr ''logs'']"]
    marker_token [of None]
  by (simp add: getConnectionToken_def DEFAULT_CONNECTION_NAME_def get_string_def)

section \<open>Claims on registration\<close>

text \<open>
  The handle of a \<open>forRoot\<close> registration is constructed from an object that has none
  of the keys \<open>name\<close>, \<open>retryAttempts\<close>, \<open>retryDelay\<close> and \<open>verboseRetryLog\<close>.
\<close>

lemma forRoot_strips:
  "run_factory p moduleOptions probe = Some r \<Longrightarrow> p \<in> set (exported (forRoot options)) \<Longrightarrow>
   \<exists>c. constructions (fst r) = [c] \<and>
       dom c \<inter> {''name'', ''retryAttempts'', ''retryDelay'', ''verboseRetryLog''} = {}"
  by (auto simp: forRoot_def Let_def constructions_run rest_without_def dom_def)

text \<open>
  Claim C5 fails on \<open>forRootAsync\<close>. For the registration
  \<open>forRootAsync({useFactory: () => ({name: 'logs', url: 'http://localhost:8123'})})\<close> the
  object passed to \<open>createClient\<close> still holds \<open>name: 'logs'\<close>: the connection factory
  of \<open>forRootAsync\<close> strips the three retry fields and not the name. \<open>forRoot\<close> on the
  same configuration passes an object without the key.
\<close>

theorem forRootAsync_keeps_name:
  "map (\<lambda>p. map_option (\<lambda>r. map (\<lambda>c. c ''name'') (constructions (fst r)))
               (run_factory p
                  [''name'' \<mapsto> JStr ''logs'', ''url'' \<mapsto> JStr ''http://localhost:8123'']
                  probe))
     (exported (forRootAsync
        \<lparr>async_name = None, async_imports = None, useExisting = None, useClass = None,
         useFactory =
           Some (\<lambda>args. [''name'' \<mapsto> JStr ''logs'',
                          ''url'' \<mapsto> JStr ''http://localhost:8123'']),
         inject = None\<rparr>)) =
     [Some [Some (JStr ''logs'')]] \<and>
   map (\<lambda>p. map_option (\<lambda>r. map (\<lambda>c. c ''name'') (constructions (fst r)))
               (run_factory p Map.empty probe))
     (exported (forRoot
        [''name'' \<mapsto> JStr ''logs'', ''url'' \<mapsto> JStr ''http://localhost:8123''])) =
     [Some [None]]"
  by (simp add: forRootAsync_def forRootAsync_useFactory_def forRoot_def Let_def
      constructions_run rest_without_def)

text \<open>
  \<open>forRootAsync\<close> makes no check of its own: for a registration with none of
  \<open>useFactory\<close>, \<open>useExisting\<close> and \<open>useClass\<close> it returns a module descriptor whose
  configuration provider is the delegate with the undefined token as its one dependency,
  followed by a class provider whose token and class are both undefined, the connection
  provider and the connection name.
\<close>

lemma missing_source_descriptor:
  assumes "useFactory options = None" and "useExisting options = None"
    and "useClass options = None"
  shows "createAsyncProviders options =
           [FactoryProvider CLICKHOUSE_MODULE_OPTIONS OptionsFactoryDelegate [None],
            ClassProvider None None] \<and>
         providers (forRootAsync options) =
           [FactoryProvider CLICKHOUSE_MODULE_OPTIONS OptionsFactoryDelegate [None],
            ClassProvider None None,
            FactoryProvider (StringToken (getConnectionToken (async_name options)))
              (ConnectionFactoryOfOptions
                 (forRootAsync_useFactory (getConnectionToken (async_name options))))
              [Some CLICKHOUSE_MODULE_OPTIONS],
            ValueProvider CLICKHOUSE_CONNECTION_NAME (getConnectionToken (async_name options))]"
  using assms
  by (simp add: forRootAsync_def createAsyncProviders_def createAsyncOptionsProvider_def Let_def)

text \<open>
  A registration that supplies a source is wired up to the call of its connection
  factory.
\<close>

lemma supplied_source_wires:
  "(useFactory options = Some f \<and> inject options = None \<longrightarrow>
      wire_connection (forRootAsync options) moduleOptions probe =
        [Inr (Some (forRootAsync_useFactory (getConnectionToken (async_name options))
                      moduleOptions probe))]) \<and>
   (useFactory options = None \<and> useExisting options = Some c \<longrightarrow>
      wire_connection (forRootAsync options) moduleOptions probe =
        [Inr (Some (forRootAsync_useFactory (getConnectionToken (async_name options))
                      moduleOptions probe))]) \<and>
   (useFactory options = None \<and> useExisting options = None \<and> useClass options = Some c \<longrightarrow>
      wire_connection (forRootAsync options) moduleOptions probe =
        [Inr (Some (forRootAsync_useFactory (getConnectionToken (async_name options))
                      moduleOptions probe))])"
  by (simp add: wire_connection_def forRootAsync_def createAsyncProviders_def
      createAsyncOptionsProvider_def Let_def)

text \<open>
  Claim C8. For a registration with none of \<open>useFactory\<close>, \<open>useExisting\<close> and
  \<open>useClass\<close>, wiring fails with a reported fault: the configuration provider, on which
  the connection provider depends, has an undefined dependency at position \<open>0\<close>. This
  holds for every resolved configuration and every probe script, and the outcome holds
  no run of the connection factory: the fault comes at wiring time, and the connection
  is never attempted.
\<close>

theorem missing_source_fails_at_wiring:
  assumes "useFactory options = None" and "useExisting options = None"
    and "useClass options = None"
  shows "wire_connection (forRootAsync options) moduleOptions probe =
           [Inl (UndefinedDependency CLICKHOUSE_MODULE_OPTIONS 0)]"
  using assms
  by (simp add: wire_connection_def forRootAsync_def createAsyncProviders_def
      createAsyncOptionsProvider_def Let_def)

text \<open>
  The theorem at a registration that gives a name and nothing else.
\<close>

theorem missing_source_fails_at_wiring_witness:
  "wire_connection
     (forRootAsync
        \<lparr>async_name = Some ''logs'', async_imports = None, useExisting = None,
         useClass = None, useFactory = None, inject = None\<rparr>)
     [''url'' \<mapsto> JStr ''http://localhost:8123''] (\<lambda>i. PingSuccess) =
     [Inl (UndefinedDependency CLICKHOUSE_MODULE_OPTIONS 0)]"
  using missing_source_fails_at_wiring
    [of "\<lparr>async_name = Some ''logs'', async_imports = None, useExisting = None,
          useClass = None, useFactory = None, inject = None\<rparr>"
        "[''url'' \<mapsto> JStr ''http://localhost:8123'']" "\<lambda>i. PingSuccess"]
  by simp

section \<open>Claims on shutdown\<close>

text \<open>
  Claim C6, as amended. When closing the handle fails, \<open>onApplicationShutdown\<close> has
  logged the line \<open>Closing ClickHouse connection (<token>)\<close> before the call of
  \<open>close\<close>, logs nothing about the failure and rejects with the fault of \<open>close\<close>:
  the module neither catches nor logs it, and what follows is the host's handling of a
  rejected shutdown hook.
\<close>

theorem close_fault_propagates:
  assumes "moduleRef this (module_connectionName this) = Some c"
    and "closing c = Some err"
  shows "onApplicationShutdown this closing =
           ([LoggerLog (''Closing ClickHouse connection ('' @ module_connectionName this @ '')''),
             Close c],
            Inl err)"
  using assms by (simp add: onApplicationShutdown_def)

text \<open>
  The theorem at the default connection with a \<open>close\<close> that rejects.
\<close>

theorem close_fault_propagates_witness:
  "onApplicationShutdown
     \<lparr>module_connectionName = ''DefaultClickHouseConnection'',
      moduleRef = [''DefaultClickHouseConnection'' \<mapsto> Client Map.empty]\<rparr>
     (\<lambda>c. Some (Error ''socket hang up'')) =
     ([LoggerLog ''Closing ClickHouse connection (DefaultClickHouseConnection)'',
       Close (Client Map.empty)],
      Inl (Error ''socket hang up''))"
  using close_fault_propagates
    [of "\<lparr>module_connectionName = ''DefaultClickHouseConnection'',
          moduleRef = [''DefaultClickHouseConnection'' \<mapsto> Client Map.empty]\<rparr>"
        "Client Map.empty" "\<lambda>c. Some (Error ''socket hang up'')" "Error ''socket hang up''"]
  by simp

text \<open>
  Claim C6 as stated fails: in that run the hook ends with the fault, and no error line
  is logged.
\<close>

theorem close_fault_swallowed_counterexample:
  "snd (onApplicationShutdown
     \<lparr>module_connectionName = ''DefaultClickHouseConnection'',
      moduleRef = [''DefaultClickHouseConnection'' \<mapsto> Client Map.empty]\<rparr>
     (\<lambda>c. Some (Error ''socket hang up''))) = Inl (Error ''socket hang up'') \<and>
   error_lines (fst (onApplicationShutdown
     \<lparr>module_connectionName = ''DefaultClickHouseConnection'',
      moduleRef = [''DefaultClickHouseConnection'' \<mapsto> Client Map.empty]\<rparr>
     (\<lambda>c. Some (Error ''socket hang up'')))) = []"
  by (simp add: onApplicationShutdown_def error_lines_def)

text \<open>
  Claim C7. At shutdown a handle that the lookup finds under the connection name is
  closed exactly once; when the lookup finds none, the hook makes no call at all, so no
  \<open>close\<close>, and resolves.
\<close>

theorem shutdown_closes_once:
  "(moduleRef this (module_connectionName this) = Some c \<longrightarrow>
      close_calls (fst (onApplicationShutdown this closing)) = [c]) \<and>
   (moduleRef this (module_connectionName this) = None \<longrightarrow>
      close_calls (fst (onApplicationShutdown this closing)) = [] \<and>
      onApplicationShutdown this closing = ([], Inr ()))"
  by (simp add: onApplicationShutdown_def close_calls_def Let_def split: option.splits)

text \<open>
  The theorem at a registered handle and at an empty registry.
\<close>

theorem shutdown_closes_once_witness:
  "close_calls (fst (onApplicationShutdown
     \<lparr>module_connectionName = ''logsClickHouseConnection'',
      moduleRef = [''logsClickHouseConnection'' \<mapsto> Client Map.empty]\<rparr>
     (\<lambda>c. None))) = [Client Map.empty] \<and>
   onApplicationShutdown
     \<lparr>module_connectionName = ''logsClickHouseConnection'', moduleRef = Map.empty\<rparr>
     (\<lambda>c. None) = ([], Inr ())"
  using shutdown_closes_once
    [of "\<lparr>module_connectionName = ''logsClickHouseConnection'',
          moduleRef = [''logsClickHouseConnection'' \<mapsto> Client Map.empty]\<rparr>"
        "Client Map.empty" "\<lambda>c. None"]
    shutdown_closes_once
    [of "\<lparr>module_connectionName = ''logsClickHouseConnection'', moduleRef = Map.empty\<rparr>"
        _ "\<lambda>c. None"]
  by simp

end
